theory Spec2Isabelle
  imports Main "HOL-Library.Sublist"
begin

section \<open>The world the program runs in\<close>

text \<open>
  The repository holds two variants of one script: \<^verbatim>\<open>src/fileshare.py\<close> (it calls itself
  "FileShare v2") and the older \<^verbatim>\<open>src/FileShare/fileshare.py\<close>. The functions \<open>run\<close>,
  \<open>extract_zip\<close>, \<open>clean_tempfolder\<close>, \<open>remove_repo\<close> and \<open>main\<close> are the same text in
  both files; \<open>detect_and_build\<close>, \<open>install_binary\<close> and \<open>get_repo\<close> differ, and the
  older ones carry the suffix \<open>_v1\<close> here.

  The script is all effects. The model threads a \<open>world\<close> through every function: the
  file system (a map from path to node), the current directory, and the trace of what
  the process did (every print, HTTP request, shell command and spawned program with
  the status it returned, archive extraction and chmod, in order). What the script cannot decide itself is a field of
  \<open>env\<close>: the effective user id, the answers of the HTTP server, what a shell command
  or a spawned program does to the file system and which status it returns, what an
  archive holds, and what \<open>importlib.util.find_spec\<close> answers for a module name.
\<close>

datatype node = File string | Dir

type_synonym fs = "string \<rightharpoonup> node"

datatype http_result = Response int string | RequestException string

datatype proc_result = Returncode int | SpawnError

datatype event =
    Print string
  | HttpGet string
  | Shell string int
  | Spawn "string list" proc_result
  | Extract string
  | Chmod string

record world =
  files :: fs
  cwd :: string
  trace :: "event list"

record env =
  euid :: nat
  http :: "string \<Rightarrow> http_result"
  shell :: "string \<Rightarrow> string \<Rightarrow> fs \<Rightarrow> int \<times> fs"
  spawn :: "string list \<Rightarrow> string \<Rightarrow> fs \<Rightarrow> proc_result \<times> fs"
  unzip :: "string \<Rightarrow> (string \<times> node) list option"
  find_spec :: "string \<Rightarrow> bool option"

text \<open>
  A function of the script either returns a value or leaves by \<open>sys.exit\<close> or by an
  exception nobody catches. The interpreter turns the three into the exit status of the
  process: 0, the argument of \<open>sys.exit\<close>, and 1 after the traceback.
\<close>

datatype abort = SysExit int | ValueError | OSError | ModuleNotFoundError

type_synonym 'a result = "abort + 'a"

fun exit_status :: "'a result \<Rightarrow> int" where
  "exit_status (Inr _) = 0"
| "exit_status (Inl (SysExit n)) = n"
| "exit_status (Inl ValueError) = 1"
| "exit_status (Inl OSError) = 1"
| "exit_status (Inl ModuleNotFoundError) = 1"

definition seq :: "'a result \<times> world \<Rightarrow> ('a \<Rightarrow> world \<Rightarrow> 'b result \<times> world) \<Rightarrow> 'b result \<times> world" where
  "seq r f = (case r of (Inl e, s) \<Rightarrow> (Inl e, s) | (Inr v, s) \<Rightarrow> f v s)"

definition emit :: "event \<Rightarrow> world \<Rightarrow> world" where
  "emit e s = s\<lparr>trace := trace s @ [e]\<rparr>"

definition print :: "string \<Rightarrow> world \<Rightarrow> world" where
  "print msg s = emit (Print msg) s"

subsection \<open>Strings and paths as Python has them\<close>

text \<open>\<open>str.split(sep)\<close>: every occurrence of the separator splits, empty pieces are kept.\<close>

fun split_on :: "char \<Rightarrow> string \<Rightarrow> string list" where
  "split_on c [] = [[]]"
| "split_on c (x # xs) =
     (if x = c then [] # split_on c xs
      else (case split_on c xs of [] \<Rightarrow> [[x]] | w # ws \<Rightarrow> (x # w) # ws))"

text \<open>\<open>str.strip("/")\<close>: the slashes at both ends go.\<close>

definition strip_slash :: "string \<Rightarrow> string" where
  "strip_slash t = rev (dropWhile (\<lambda>c. c = CHR ''/'') (rev (dropWhile (\<lambda>c. c = CHR ''/'') t)))"

text \<open>\<open>" ".join(xs)\<close>.\<close>

fun join_with :: "string \<Rightarrow> string list \<Rightarrow> string" where
  "join_with sep [] = []"
| "join_with sep [x] = x"
| "join_with sep (x # y # ys) = x @ sep @ join_with sep (y # ys)"

text \<open>
  \<open>os.path.join\<close> of two components, which is also how a relative path is read against
  the current directory. Paths are compared as written: \<open>.\<close>, \<open>..\<close> and doubled or
  trailing slashes are not normalised.
\<close>

definition os_path_join :: "string \<Rightarrow> string \<Rightarrow> string" where
  "os_path_join a b =
     (if b \<noteq> [] \<and> hd b = CHR ''/'' then b
      else if a = [] \<or> last a = CHR ''/'' then a @ b
      else a @ ''/'' @ b)"

text \<open>\<open>os.path.basename\<close>: what follows the last slash.\<close>

definition basename :: "string \<Rightarrow> string" where
  "basename p = rev (takeWhile (\<lambda>c. c \<noteq> CHR ''/'') (rev p))"

text \<open>
  \<open>pathlib\<close> reads a path as an anchor and its parts: empty pieces and \<open>.\<close> are dropped
  (so doubled and trailing slashes go), \<open>..\<close> stays; exactly two leading slashes are an
  anchor of their own. \<open>str(Path(p))\<close> writes the parts back with single slashes, and
  \<open>.\<close> when nothing is left. \<open>Path(p).name\<close> is the last part, or the empty string
  when there is none. \<open>Path(a) / b\<close> joins as \<open>os.path.join\<close> does and reads the result
  again.
\<close>

definition parts :: "string \<Rightarrow> string list" where
  "parts p = filter (\<lambda>c. c \<noteq> [] \<and> c \<noteq> ''.'') (split_on (CHR ''/'') p)"

definition anchor :: "string \<Rightarrow> string" where
  "anchor p =
     (if take 2 p = ''//'' \<and> take 3 p \<noteq> ''///'' then ''//''
      else if take 1 p = ''/'' then ''/''
      else [])"

definition pure_path :: "string \<Rightarrow> string" where
  "pure_path p =
     (if anchor p = [] \<and> parts p = [] then ''.''
      else anchor p @ join_with ''/'' (parts p))"

definition path_name :: "string \<Rightarrow> string" where
  "path_name p = (if parts p = [] then [] else last (parts p))"

definition path_div :: "string \<Rightarrow> string \<Rightarrow> string" where
  "path_div a b = pure_path (os_path_join a b)"

subsection \<open>The file system\<close>

text \<open>
  The file system maps the absolute path of every file and directory, written without
  \<open>.\<close>, \<open>..\<close>, doubled or trailing slashes, to its node; the root is always a directory.
  A system call does not look its argument up as written: the kernel walks it, one
  component after the other. \<open>walk\<close> does the same on a stack of the names passed so
  far (innermost first): an empty component and \<open>.\<close> stay where they are, \<open>..\<close> goes up,
  a name must exist, and every step but the last must start from a directory. There are
  no symbolic links in the model, and no permissions: the script runs as root.
\<close>

datatype errno = ENOENT | ENOTDIR | EISDIR | EEXIST

fun strerror :: "errno \<Rightarrow> string" where
  "strerror ENOENT = ''[Errno 2] No such file or directory''"
| "strerror ENOTDIR = ''[Errno 20] Not a directory''"
| "strerror EISDIR = ''[Errno 21] Is a directory''"
| "strerror EEXIST = ''[Errno 17] File exists''"

definition path_of :: "string list \<Rightarrow> string" where
  "path_of stk = (if stk = [] then ''/'' else concat (map (\<lambda>c. CHR ''/'' # c) (rev stk)))"

definition node_at :: "fs \<Rightarrow> string list \<Rightarrow> node option" where
  "node_at f stk = (if stk = [] then Some Dir else f (path_of stk))"

fun walk :: "fs \<Rightarrow> string list \<Rightarrow> string list \<Rightarrow> errno + string list" where
  "walk f stk [] = Inr stk"
| "walk f stk (c # cs) =
     (case node_at f stk of
        None \<Rightarrow> Inl ENOENT
      | Some (File x) \<Rightarrow> Inl ENOTDIR
      | Some Dir \<Rightarrow>
          if c = [] \<or> c = ''.'' then walk f stk cs
          else if c = ''..'' then walk f (tl stk) cs
          else if f (path_of (c # stk)) = None then Inl ENOENT
          else walk f (c # stk) cs)"

text \<open>
  A relative path is read against the current directory, which is kept as an absolute
  path. The empty path names nothing.
\<close>

definition resolve :: "world \<Rightarrow> string \<Rightarrow> errno + string list" where
  "resolve s p =
     (if p = [] then Inl ENOENT
      else walk (files s) [] (split_on (CHR ''/'') (os_path_join (cwd s) p)))"

definition stat :: "world \<Rightarrow> string \<Rightarrow> node option" where
  "stat s p = (case resolve s p of Inl e \<Rightarrow> None | Inr stk \<Rightarrow> node_at (files s) stk)"

text \<open>\<open>os.path.exists\<close> and \<open>Path.exists\<close>: the path can be walked.\<close>

definition exists :: "world \<Rightarrow> string \<Rightarrow> bool" where
  "exists s p = (stat s p \<noteq> None)"

definition path_under :: "string \<Rightarrow> string \<Rightarrow> bool" where
  "path_under p q = (q = p \<or> prefix (p @ ''/'') q)"


definition BASE_URL :: string where
  "BASE_URL = ''https://quanthai.net/repos''"

definition TMP_DIR :: string where
  "TMP_DIR = ''/tmp/fsdl''"

section \<open>The functions both variants share\<close>

text \<open>
  \<^verbatim>\<open>
  def run(cmd):
      result = subprocess.run(cmd, shell=True)
      if result.returncode != 0:
          print(f"Command failed: {cmd}")
          sys.exit(1)
  \<close>
\<close>

definition run :: "env \<Rightarrow> string \<Rightarrow> world \<Rightarrow> unit result \<times> world" where
  "run E cmd s =
     (case shell E cmd (cwd s) (files s) of (rc, fs') \<Rightarrow>
        (let s1 = emit (Shell cmd rc) (s\<lparr>files := fs'\<rparr>)
         in if rc \<noteq> 0 then (Inl (SysExit 1), print (''Command failed: '' @ cmd) s1)
            else (Inr (), s1)))"

text \<open>
  \<^verbatim>\<open>
  def remove_repo(repo_path):
      if "/" in repo_path:
          _, reponame = repo_path.split("/")
      else:
          reponame = repo_path
      bin_path = f"/usr/local/bin/{reponame}"
      share_path = f"/usr/share/{reponame}"
      if os.path.exists(bin_path):
          run(f"sudo rm -rf {bin_path}")
          print(f"Removed binary from {bin_path}")
      else:
          print("Binary not found in /usr/local/bin")
      if os.path.exists(share_path):
          run(f"sudo rm -rf {share_path}")
          print(f"Removed directory {share_path}")
      else:
          print("Share directory not found")
  \<close>
  \<open>remove_paths\<close> is the body from \<open>bin_path = ...\<close> on; the unpacking of a split that
  has not exactly two pieces raises ValueError.
\<close>

definition remove_paths :: "env \<Rightarrow> string \<Rightarrow> world \<Rightarrow> unit result \<times> world" where
  "remove_paths E reponame s =
     (let bin_path = ''/usr/local/bin/'' @ reponame;
          share_path = ''/usr/share/'' @ reponame
      in seq (if exists s bin_path
              then seq (run E (''sudo rm -rf '' @ bin_path) s)
                       (\<lambda>_ s1. (Inr (), print (''Removed binary from '' @ bin_path) s1))
              else (Inr (), print ''Binary not found in /usr/local/bin'' s))
           (\<lambda>_ s2.
              if exists s2 share_path
              then seq (run E (''sudo rm -rf '' @ share_path) s2)
                       (\<lambda>_ s3. (Inr (), print (''Removed directory '' @ share_path) s3))
              else (Inr (), print ''Share directory not found'' s2)))"

definition remove_repo :: "env \<Rightarrow> string \<Rightarrow> world \<Rightarrow> unit result \<times> world" where
  "remove_repo E repo_path s =
     (if CHR ''/'' \<in> set repo_path
      then (case split_on (CHR ''/'') repo_path of
              [u, reponame] \<Rightarrow> remove_paths E reponame s
            | _ \<Rightarrow> (Inl ValueError, s))
      else remove_paths E repo_path s)"

text \<open>
  \<open>os.chdir\<close> raises when the target cannot be walked or is not a directory.
  \<open>os.chmod\<close> raises when the path does not exist; permission bits are not part of the
  file system model, the call is recorded in the trace.
\<close>

definition chdir :: "string \<Rightarrow> world \<Rightarrow> unit result \<times> world" where
  "chdir p s =
     (case resolve s p of
        Inl e \<Rightarrow> (Inl OSError, s)
      | Inr stk \<Rightarrow>
          if node_at (files s) stk = Some Dir then (Inr (), s\<lparr>cwd := path_of stk\<rparr>)
          else (Inl OSError, s))"

definition chmod :: "string \<Rightarrow> world \<Rightarrow> unit result \<times> world" where
  "chmod p s =
     (case resolve s p of
        Inl e \<Rightarrow> (Inl OSError, s)
      | Inr stk \<Rightarrow> (Inr (), emit (Chmod (path_of stk)) s))"

text \<open>
  \<open>os.makedirs(p, exist_ok=True)\<close>, called on the Workspace path only: below the stack
  \<open>stk\<close> every name of the list is created as a directory when nothing is there and
  passed when it is a directory; a file in the way raises. What was created before the
  error stays.
\<close>

fun mkdirs :: "fs \<Rightarrow> string list \<Rightarrow> string list \<Rightarrow> errno option \<times> fs" where
  "mkdirs f stk [] = (None, f)"
| "mkdirs f stk (c # cs) =
     (case f (path_of (c # stk)) of
        None \<Rightarrow> mkdirs (f(path_of (c # stk) \<mapsto> Dir)) (c # stk) cs
      | Some Dir \<Rightarrow> mkdirs f (c # stk) cs
      | Some (File x) \<Rightarrow> (Some (if cs = [] then EEXIST else ENOTDIR), f))"

definition makedirs :: "string \<Rightarrow> world \<Rightarrow> unit result \<times> world" where
  "makedirs p s =
     (case mkdirs (files s) [] (parts p) of
        (None, f) \<Rightarrow> (Inr (), s\<lparr>files := f\<rparr>)
      | (Some e, f) \<Rightarrow> (Inl OSError, s\<lparr>files := f\<rparr>))"

text \<open>
  \<open>with open(p, "wb") as f: f.write(content)\<close>: the directory of \<open>p\<close> is walked, the
  last component is created or truncated there. It fails with the text of the OSError
  when the walk fails, when the directory is not one, or when \<open>p\<close> names a directory.
\<close>

definition quoted :: "string \<Rightarrow> string" where
  "quoted p = [CHR 0x27] @ p @ [CHR 0x27]"

definition oserror_text :: "errno \<Rightarrow> string \<Rightarrow> string" where
  "oserror_text e p = strerror e @ '': '' @ quoted p"

definition write_file :: "string \<Rightarrow> string \<Rightarrow> world \<Rightarrow> string + world" where
  "write_file p content s =
     (if p = [] then Inl (oserror_text ENOENT p)
      else
        (let comps = split_on (CHR ''/'') (os_path_join (cwd s) p);
             c = last comps
         in case walk (files s) [] (butlast comps) of
              Inl e \<Rightarrow> Inl (oserror_text e p)
            | Inr stk \<Rightarrow>
                (case node_at (files s) stk of
                   None \<Rightarrow> Inl (oserror_text ENOENT p)
                 | Some (File x) \<Rightarrow> Inl (oserror_text ENOTDIR p)
                 | Some Dir \<Rightarrow>
                     if c = [] \<or> c = ''.'' \<or> c = ''..'' then Inl (oserror_text EISDIR p)
                     else if files s (path_of (c # stk)) = Some Dir
                     then Inl (oserror_text EISDIR p)
                     else Inr (s\<lparr>files := (files s)(path_of (c # stk) \<mapsto> File content)\<rparr>))))"

text \<open>
  \<^verbatim>\<open>
  def extract_zip(path):
      try:
          with zipfile.ZipFile(path, 'r') as zip_ref:
              zip_ref.extractall(TMP_DIR)
          print(f"Extracted {os.path.basename(path)}")
      except zipfile.BadZipFile:
          print(f"Bad ZIP file: {os.path.basename(path)}")
  \<close>
  Only BadZipFile is caught: opening a directory or a missing path raises an OSError
  that leaves the function, and so does a member that cannot be written.

  \<open>unzip\<close> of the environment reads the bytes of an archive: nothing when they are not
  a ZIP file, else the members in order, each a name with the content of a file or the
  mark of a directory. \<open>extractall\<close> writes them below the Workspace as \<open>zipfile\<close> does:
  the empty, \<open>.\<close> and \<open>..\<close> components of a member's name are dropped, the directories
  above the target are created, a directory member is created unless a directory is
  there, a file member is written. A file where a directory is needed, and a directory
  where a file is to be written, raise; the members before it stay extracted. An
  archive that opens but whose members cannot be read (a wrong checksum, a password) is
  outside the model. The event \<open>Extract\<close> is recorded when \<open>extractall\<close> runs.
\<close>

definition sanitize :: "string \<Rightarrow> string list" where
  "sanitize n = filter (\<lambda>x. x \<noteq> [] \<and> x \<noteq> ''.'' \<and> x \<noteq> ''..'') (split_on (CHR ''/'') n)"

definition extract_member :: "string \<times> node \<Rightarrow> fs \<Rightarrow> errno option \<times> fs" where
  "extract_member m f =
     (let full = parts TMP_DIR @ sanitize (fst m);
          target = path_of (rev full)
      in case mkdirs f [] (butlast full) of
           (Some e, f1) \<Rightarrow> (Some e, f1)
         | (None, f1) \<Rightarrow>
             (case snd m of
                Dir \<Rightarrow>
                  (case f1 target of
                     None \<Rightarrow> (None, f1(target \<mapsto> Dir))
                   | Some Dir \<Rightarrow> (None, f1)
                   | Some (File x) \<Rightarrow> (Some EEXIST, f1))
              | File content \<Rightarrow>
                  if f1 target = Some Dir then (Some EISDIR, f1)
                  else (None, f1(target \<mapsto> File content))))"

fun extractall :: "(string \<times> node) list \<Rightarrow> fs \<Rightarrow> errno option \<times> fs" where
  "extractall [] f = (None, f)"
| "extractall (m # ms) f =
     (case extract_member m f of
        (Some e, f1) \<Rightarrow> (Some e, f1)
      | (None, f1) \<Rightarrow> extractall ms f1)"

definition extract_zip :: "env \<Rightarrow> string \<Rightarrow> world \<Rightarrow> unit result \<times> world" where
  "extract_zip E path s =
     (case stat s path of
        None \<Rightarrow> (Inl OSError, s)
      | Some Dir \<Rightarrow> (Inl OSError, s)
      | Some (File c) \<Rightarrow>
          (case unzip E c of
             None \<Rightarrow> (Inr (), print (''Bad ZIP file: '' @ basename path) s)
           | Some members \<Rightarrow>
               (case extractall members (files s) of
                  (Some e, f) \<Rightarrow> (Inl OSError, emit (Extract path) (s\<lparr>files := f\<rparr>))
                | (None, f) \<Rightarrow>
                    (Inr (), print (''Extracted '' @ basename path)
                               (emit (Extract path) (s\<lparr>files := f\<rparr>))))))"

text \<open>
  \<^verbatim>\<open>
  def clean_tempfolder():
      run("sudo rm -rf /tmp/fsdl")
      print("Cleaning complete")
  \<close>
\<close>

definition clean_tempfolder :: "env \<Rightarrow> world \<Rightarrow> unit result \<times> world" where
  "clean_tempfolder E s =
     seq (run E ''sudo rm -rf /tmp/fsdl'' s) (\<lambda>_ s1. (Inr (), print ''Cleaning complete'' s1))"

text \<open>
  The two loops of \<open>get_repo\<close>, the same in both variants.
  \<^verbatim>\<open>
  for fname in files_to_try:
      file_url = f"{full_url}/{fname}"
      print(f"Trying {file_url} ...")
      try:
          res = requests.get(file_url)
          if res.status_code == 200:
              local_path = os.path.join(TMP_DIR, fname)
              with open(local_path, "wb") as f:
                  f.write(res.content)
              downloaded.append(fname)
              print(f"Downloaded {fname}")
          else:
              print(f"Not found: {fname}")
      except Exception as e:
          print(f"Error fetching {fname}: {e}")
  \<close>
\<close>

fun fetch_loop :: "env \<Rightarrow> string \<Rightarrow> string list \<Rightarrow> string list \<Rightarrow> world \<Rightarrow> string list \<times> world" where
  "fetch_loop E full_url [] downloaded s = (downloaded, s)"
| "fetch_loop E full_url (fname # rest) downloaded s =
     (let file_url = full_url @ ''/'' @ fname;
          s1 = emit (HttpGet file_url) (print (''Trying '' @ file_url @ '' ...'') s)
      in case http E file_url of
           RequestException msg \<Rightarrow>
             fetch_loop E full_url rest downloaded
               (print (''Error fetching '' @ fname @ '': '' @ msg) s1)
         | Response status_code content \<Rightarrow>
             if status_code = 200
             then (case write_file (os_path_join TMP_DIR fname) content s1 of
                     Inl msg \<Rightarrow>
                       fetch_loop E full_url rest downloaded
                         (print (''Error fetching '' @ fname @ '': '' @ msg) s1)
                   | Inr s2 \<Rightarrow>
                       fetch_loop E full_url rest (downloaded @ [fname])
                         (print (''Downloaded '' @ fname) s2))
             else fetch_loop E full_url rest downloaded (print (''Not found: '' @ fname) s1))"

text \<open>
  \<^verbatim>\<open>
  for fname in ["main.zip", "app.zip", "root.zip"]:
      path = os.path.join(TMP_DIR, fname)
      if os.path.exists(path):
          extract_zip(path)
  \<close>
\<close>

fun extract_loop :: "env \<Rightarrow> string list \<Rightarrow> world \<Rightarrow> unit result \<times> world" where
  "extract_loop E [] s = (Inr (), s)"
| "extract_loop E (fname # rest) s =
     (let path = os_path_join TMP_DIR fname
      in if exists s path
         then seq (extract_zip E path s) (\<lambda>_ s1. extract_loop E rest s1)
         else extract_loop E rest s)"

definition files_to_try :: "string list" where
  "files_to_try = [''main.zip'', ''app.zip'', ''root.zip'', ''install.sh'']"

definition archives :: "string list" where
  "archives = [''main.zip'', ''app.zip'', ''root.zip'']"

section \<open>The variant \<^verbatim>\<open>src/fileshare.py\<close>\<close>

text \<open>
  \<^verbatim>\<open>
  def detect_and_build(reponame):
      os.chdir(TMP_DIR)
      py_flags = ""
      known_hidden_imports = ['pyttsx3', 'pkg_resources.py2_warn', 'engine', 'comtypes',
                              'dnspython', 'sympy', 'numpy']
      hidden_imports = [f"--hidden-import={mod}" for mod in known_hidden_imports
                        if importlib.util.find_spec(mod)]
      py_flags += " " + " ".join(hidden_imports)
      if Path("main.py").exists():
          print("Detected Python app. Building with PyInstaller...")
          run("pip install pyinstaller")
          build_cmd = f"sudo pyinstaller --onefile main.py --name {reponame} {py_flags}"
          run(build_cmd)
          binary_path = Path(TMP_DIR) / "dist" / reponame
          if binary_path.exists():
              return str(binary_path)
      elif Path("main.go").exists():
          print("Detected Go app. Building with go build...")
          run(f"go build -o {reponame} main.go")
          return reponame
      elif Path("main.cpp").exists():
          print("Detected C++ app. Building with g++...")
          run(f"g++ main.cpp -o {reponame}")
          return reponame
      elif Path("Makefile").exists():
          print("Makefile found. Running make...")
          run("make")
          return None
      else:
          print("No known entry point found. Please consider checking the repository's source.'")
          return None
  \<close>
  The Python branch falls off its end, and so returns None, when the built file is not
  there. The list of hidden imports is made before any marker is looked at, whatever the
  branch taken later. \<open>find_spec\<close> answers with a spec (\<open>Some True\<close>), with None
  (\<open>Some False\<close>), or raises (\<open>None\<close>): for a dotted name it imports the parent package
  first, and \<open>pkg_resources.py2_warn\<close> raises ModuleNotFoundError where \<open>pkg_resources\<close>
  is not installed. The comprehension raises as soon as one probe does.
\<close>

definition known_hidden_imports :: "string list" where
  "known_hidden_imports =
     [''pyttsx3'', ''pkg_resources.py2_warn'', ''engine'', ''comtypes'', ''dnspython'',
      ''sympy'', ''numpy'']"

definition probes_raise :: "env \<Rightarrow> bool" where
  "probes_raise E = (None \<in> set (map (find_spec E) known_hidden_imports))"

definition py_flags :: "env \<Rightarrow> string" where
  "py_flags E =
     [] @ '' '' @ join_with '' ''
        (map (\<lambda>m. ''--hidden-import='' @ m)
           (filter (\<lambda>m. find_spec E m = Some True) known_hidden_imports))"

definition detect_and_build :: "env \<Rightarrow> string \<Rightarrow> world \<Rightarrow> string option result \<times> world" where
  "detect_and_build E reponame s0 =
     seq (chdir TMP_DIR s0) (\<lambda>_ s.
       if probes_raise E then (Inl ModuleNotFoundError, s)
       else if exists s ''main.py'' then
         seq (run E ''pip install pyinstaller''
                (print ''Detected Python app. Building with PyInstaller...'' s)) (\<lambda>_ s1.
         seq (run E (''sudo pyinstaller --onefile main.py --name '' @ reponame @ '' '' @ py_flags E) s1)
           (\<lambda>_ s2.
              let binary_path = path_div (path_div TMP_DIR ''dist'') reponame
              in if exists s2 binary_path then (Inr (Some binary_path), s2) else (Inr None, s2)))
       else if exists s ''main.go'' then
         seq (run E (''go build -o '' @ reponame @ '' main.go'')
                (print ''Detected Go app. Building with go build...'' s))
           (\<lambda>_ s1. (Inr (Some reponame), s1))
       else if exists s ''main.cpp'' then
         seq (run E (''g++ main.cpp -o '' @ reponame)
                (print ''Detected C++ app. Building with g++...'' s))
           (\<lambda>_ s1. (Inr (Some reponame), s1))
       else if exists s ''Makefile'' then
         seq (run E ''make'' (print ''Makefile found. Running make...'' s))
           (\<lambda>_ s1. (Inr None, s1))
       else
         (Inr None,
          print (''No known entry point found. Please consider checking the repository''
                 @ [CHR 0x27] @ ''s source.'' @ [CHR 0x27]) s))"

text \<open>
  \<^verbatim>\<open>
  def install_binary(binary_path, reponame):
      bin_name = Path(binary_path).name
      dest_bin = f"/usr/local/bin/{bin_name}"
      share_dir = f"/usr/share/{reponame}"
      run(f"chmod +x {binary_path}")
      run(f"sudo cp {binary_path} {dest_bin}")
      run(f"sudo mkdir -p {share_dir}")
      run(f"sudo cp {binary_path} {share_dir}")
      print(f"Installed as '{bin_name}'")
  \<close>
\<close>

definition install_binary :: "env \<Rightarrow> string \<Rightarrow> string \<Rightarrow> world \<Rightarrow> unit result \<times> world" where
  "install_binary E binary_path reponame s =
     (let bin_name = path_name binary_path;
          dest_bin = ''/usr/local/bin/'' @ bin_name;
          share_dir = ''/usr/share/'' @ reponame
      in seq (run E (''chmod +x '' @ binary_path) s) (\<lambda>_ s1.
         seq (run E (''sudo cp '' @ binary_path @ '' '' @ dest_bin) s1) (\<lambda>_ s2.
         seq (run E (''sudo mkdir -p '' @ share_dir) s2) (\<lambda>_ s3.
         seq (run E (''sudo cp '' @ binary_path @ '' '' @ share_dir) s3) (\<lambda>_ s4.
           (Inr (), print (''Installed as '' @ quoted bin_name) s4))))))"

text \<open>
  \<^verbatim>\<open>
  def get_repo(repo_path, flags):
      no_unzip = "--no-unzip" in flags
      print(f"Fetching repo: {repo_path}")
      full_url = f"{BASE_URL}/{repo_path}"
      os.makedirs(TMP_DIR, exist_ok=True)
      files_to_try = ["main.zip", "app.zip", "root.zip", "install.sh"]
      downloaded = []
      for fname in files_to_try: ...
      if not downloaded:
          print("No files found in repo.")
          sys.exit(1)
      if no_unzip:
          print("--no-unzip used. Skipping extraction and install.")
          return
      for fname in ["main.zip", "app.zip", "root.zip"]: ...
      os.chdir(TMP_DIR)
      user, reponame = repo_path.split("/")
      # If install.sh is there, run it - skip FS auto-detection
      if "install.sh" in downloaded:
          print("install.sh found. Running and skipping default installer protocol...")
          os.chmod("install.sh", 0o755)
          result = subprocess.run(["./install.sh"])
          if result.returncode != 0:
              print("install.sh failed. Aborting.")
          return
      # Otherwise, do FS's automatic detection
      print("No install.sh found. Using automatic installer protocol...")
      binary_path = detect_and_build(reponame)
      if binary_path and os.path.exists(binary_path):
          install_binary(binary_path, reponame)
      else:
          print("Build failed or binary not found.")
      print("Done.")
  \<close>
  \<open>run_install_script\<close> is the branch of the retrieved script, \<open>auto_install\<close> the rest
  of the function after it.
\<close>

definition run_install_script :: "env \<Rightarrow> world \<Rightarrow> unit result \<times> world" where
  "run_install_script E s =
     seq (chmod ''install.sh''
            (print ''install.sh found. Running and skipping default installer protocol...'' s))
       (\<lambda>_ s1.
          case spawn E [''./install.sh''] (cwd s1) (files s1) of
            (SpawnError, fs') \<Rightarrow>
              (Inl OSError, emit (Spawn [''./install.sh''] SpawnError) (s1\<lparr>files := fs'\<rparr>))
          | (Returncode rc, fs') \<Rightarrow>
              (let s2 = emit (Spawn [''./install.sh''] (Returncode rc)) (s1\<lparr>files := fs'\<rparr>)
               in if rc \<noteq> 0 then (Inr (), print ''install.sh failed. Aborting.'' s2)
                  else (Inr (), s2)))"

definition auto_install :: "env \<Rightarrow> string \<Rightarrow> world \<Rightarrow> unit result \<times> world" where
  "auto_install E reponame s =
     seq (detect_and_build E reponame
            (print ''No install.sh found. Using automatic installer protocol...'' s))
       (\<lambda>binary_path s1.
          seq (case binary_path of
                 None \<Rightarrow> (Inr (), print ''Build failed or binary not found.'' s1)
               | Some bp \<Rightarrow>
                   if bp \<noteq> [] \<and> exists s1 bp then install_binary E bp reponame s1
                   else (Inr (), print ''Build failed or binary not found.'' s1))
            (\<lambda>_ s2. (Inr (), print ''Done.'' s2)))"

definition get_repo :: "env \<Rightarrow> string \<Rightarrow> string list \<Rightarrow> world \<Rightarrow> unit result \<times> world" where
  "get_repo E repo_path flags s0 =
     (let no_unzip = (''--no-unzip'' \<in> set flags);
          full_url = BASE_URL @ ''/'' @ repo_path
      in seq (makedirs TMP_DIR (print (''Fetching repo: '' @ repo_path) s0)) (\<lambda>_ s1.
           case fetch_loop E full_url files_to_try [] s1 of (downloaded, s2) \<Rightarrow>
             if downloaded = [] then (Inl (SysExit 1), print ''No files found in repo.'' s2)
             else if no_unzip
             then (Inr (), print ''--no-unzip used. Skipping extraction and install.'' s2)
             else
               seq (extract_loop E archives s2) (\<lambda>_ s3.
               seq (chdir TMP_DIR s3) (\<lambda>_ s4.
                 case split_on (CHR ''/'') repo_path of
                   [user, reponame] \<Rightarrow>
                     if ''install.sh'' \<in> set downloaded then run_install_script E s4
                     else auto_install E reponame s4
                 | _ \<Rightarrow> (Inl ValueError, s4)))))"

definition help_text :: string where
  "help_text = join_with [CHR 0x0A]
     [[],
      ''FileShare v2, Universal Software Deployer, Written by Quan Thai'',
      [],
      ''Usage:'',
      ''  fileshare get <user/repo> [--no-unzip]'',
      ''      Downloads and installs a repo from quanthai.net.'',
      ''      --no-unzip: Skips extracting and installing '' @ [CHR 0xE2] @ [CHR 0x80] @ [CHR 0x94] @ '' just fetches files into /tmp/fsdl.'',
      [],
      ''  fileshare remove <repo>'',
      ''      Removes installed binary and associated share directory.'',
      [],
      ''  fileshare clean'',
      ''      Removes the temporary build directory at /tmp/fsdl.'',
      [],
      ''  fileshare --help'',
      ''      Shows this help message.'',
      []]"

definition print_help :: "world \<Rightarrow> world" where
  "print_help s = print help_text s"

text \<open>
  \<^verbatim>\<open>
  def main():
      if os.geteuid() != 0:
          print("Please run with sudo.")
          sys.exit(1)
      if len(sys.argv) < 2 or "--help" in sys.argv:
          print_help()
          sys.exit(0)
      command = sys.argv[1]
      if command not in ["get", "remove", "clean"]:
          print(f"Unknown command: {command}")
          print_help()
          sys.exit(1)
      if command == "clean":
          clean_tempfolder()
          return
      if len(sys.argv) < 3:
          print("Error: Missing repo path.")
          print_help()
          sys.exit(1)
      repo_path = sys.argv[2].strip("/")
      flags = sys.argv[3:]
      if command == "get":
          get_repo(repo_path, flags)
      elif command == "remove":
          remove_repo(repo_path)
  \<close>
  \<open>argv\<close> is \<open>sys.argv\<close>, the script's own name first.
\<close>

definition main :: "env \<Rightarrow> string list \<Rightarrow> world \<Rightarrow> unit result \<times> world" where
  "main E argv s =
     (if euid E \<noteq> 0 then (Inl (SysExit 1), print ''Please run with sudo.'' s)
      else if length argv < 2 \<or> ''--help'' \<in> set argv then (Inl (SysExit 0), print_help s)
      else
        (let command = argv ! 1
         in if command \<notin> set [''get'', ''remove'', ''clean'']
            then (Inl (SysExit 1), print_help (print (''Unknown command: '' @ command) s))
            else if command = ''clean'' then clean_tempfolder E s
            else if length argv < 3
            then (Inl (SysExit 1), print_help (print ''Error: Missing repo path.'' s))
            else
              (let repo_path = strip_slash (argv ! 2);
                   flags = drop 3 argv
               in if command = ''get'' then get_repo E repo_path flags s
                  else if command = ''remove'' then remove_repo E repo_path s
                  else (Inr (), s))))"

section \<open>The variant \<^verbatim>\<open>src/FileShare/fileshare.py\<close>\<close>

text \<open>
  \<^verbatim>\<open>
  def detect_and_build():
      os.chdir(TMP_DIR)
      if Path("main.py").exists():
          print("Detected Python app. Building with PyInstaller...")
          run("pip install pyinstaller")
          run("pyinstaller --onefile main.py")
          return "dist/main"
      elif Path("main.go").exists():
          print("Detected Go app. Building with go build...")
          run("go build -o app_bin main.go")
          return "app_bin"
      elif Path("main.cpp").exists():
          print("Detected C++ app. Building with g++...")
          run("g++ main.cpp -o app_bin")
          return "app_bin"
      elif Path("Makefile").exists():
          print("Makefile found. Running make...")
          run("make")
          return None
      else:
          print("No known entry point found. Please consider using --no-unzip or --ignore-default.")
          return None
  \<close>
\<close>

definition detect_and_build_v1 :: "env \<Rightarrow> world \<Rightarrow> string option result \<times> world" where
  "detect_and_build_v1 E s0 =
     seq (chdir TMP_DIR s0) (\<lambda>_ s.
       if exists s ''main.py'' then
         seq (run E ''pip install pyinstaller''
                (print ''Detected Python app. Building with PyInstaller...'' s)) (\<lambda>_ s1.
         seq (run E ''pyinstaller --onefile main.py'' s1)
           (\<lambda>_ s2. (Inr (Some ''dist/main''), s2)))
       else if exists s ''main.go'' then
         seq (run E ''go build -o app_bin main.go''
                (print ''Detected Go app. Building with go build...'' s))
           (\<lambda>_ s1. (Inr (Some ''app_bin''), s1))
       else if exists s ''main.cpp'' then
         seq (run E ''g++ main.cpp -o app_bin''
                (print ''Detected C++ app. Building with g++...'' s))
           (\<lambda>_ s1. (Inr (Some ''app_bin''), s1))
       else if exists s ''Makefile'' then
         seq (run E ''make'' (print ''Makefile found. Running make...'' s))
           (\<lambda>_ s1. (Inr None, s1))
       else
         (Inr None,
          print ''No known entry point found. Please consider using --no-unzip or --ignore-default.'' s))"

text \<open>
  \<^verbatim>\<open>
  def install_binary(binary_path, reponame):
      bin_name = Path(binary_path).name
      run(f"chmod +x {binary_path}")
      run(f"sudo cp {binary_path} /usr/local/bin/{bin_name}")
      run(f"sudo mkdir -p /usr/share/{reponame}/")
      run(f"sudo cp {binary_path} /usr/share/{reponame}/")
      print(f"Installed as '{bin_name}'")
      run("sudo rm -rf /tmp/fsdl")
  \<close>
\<close>

definition install_binary_v1 :: "env \<Rightarrow> string \<Rightarrow> string \<Rightarrow> world \<Rightarrow> unit result \<times> world" where
  "install_binary_v1 E binary_path reponame s =
     (let bin_name = path_name binary_path
      in seq (run E (''chmod +x '' @ binary_path) s) (\<lambda>_ s1.
         seq (run E (''sudo cp '' @ binary_path @ '' /usr/local/bin/'' @ bin_name) s1) (\<lambda>_ s2.
         seq (run E (''sudo mkdir -p /usr/share/'' @ reponame @ ''/'') s2) (\<lambda>_ s3.
         seq (run E (''sudo cp '' @ binary_path @ '' /usr/share/'' @ reponame @ ''/'') s3) (\<lambda>_ s4.
           run E ''sudo rm -rf /tmp/fsdl'' (print (''Installed as '' @ quoted bin_name) s4))))))"

text \<open>
  \<^verbatim>\<open>
  def get_repo(repo_path, flags):
      no_unzip = "--no-unzip" in flags
      ignore_default = "--ignore-default" in flags
      print(f"Fetching repo: {repo_path}")
      full_url = f"{BASE_URL}/{repo_path}"
      os.makedirs(TMP_DIR, exist_ok=True)
      files_to_try = ["main.zip", "app.zip", "root.zip", "install.sh"]
      downloaded = []
      for fname in files_to_try: ...
      if not downloaded:
          print("No files found in repo.")
          sys.exit(1)
      if not no_unzip:
          for fname in ["main.zip", "app.zip", "root.zip"]: ...
      install_script = os.path.join(TMP_DIR, "install.sh")
      user, reponame = repo_path.split("/")
      if ignore_default and "install.sh" in downloaded:
          print("Running install.sh ...")
          os.chmod(install_script, 0o755)
          subprocess.run([install_script], cwd=TMP_DIR)
      else:
          print("Using automatic language detection...")
          binary_path = detect_and_build()
          if binary_path and os.path.exists(binary_path):
              install_binary(binary_path, reponame)
          else:
              print("Build failed or output binary not found.")
      print("Done.")
  \<close>
\<close>

definition run_install_script_v1 :: "env \<Rightarrow> world \<Rightarrow> unit result \<times> world" where
  "run_install_script_v1 E s =
     (let install_script = os_path_join TMP_DIR ''install.sh''
      in seq (chmod install_script (print ''Running install.sh ...'' s)) (\<lambda>_ s1.
           case spawn E [install_script] TMP_DIR (files s1) of
             (SpawnError, fs') \<Rightarrow>
               (Inl OSError, emit (Spawn [install_script] SpawnError) (s1\<lparr>files := fs'\<rparr>))
           | (Returncode rc, fs') \<Rightarrow>
               (Inr (), emit (Spawn [install_script] (Returncode rc)) (s1\<lparr>files := fs'\<rparr>))))"

definition auto_install_v1 :: "env \<Rightarrow> string \<Rightarrow> world \<Rightarrow> unit result \<times> world" where
  "auto_install_v1 E reponame s =
     seq (detect_and_build_v1 E (print ''Using automatic language detection...'' s))
       (\<lambda>binary_path s1.
          case binary_path of
            None \<Rightarrow> (Inr (), print ''Build failed or output binary not found.'' s1)
          | Some bp \<Rightarrow>
              if bp \<noteq> [] \<and> exists s1 bp then install_binary_v1 E bp reponame s1
              else (Inr (), print ''Build failed or output binary not found.'' s1))"

definition get_repo_v1 :: "env \<Rightarrow> string \<Rightarrow> string list \<Rightarrow> world \<Rightarrow> unit result \<times> world" where
  "get_repo_v1 E repo_path flags s0 =
     (let no_unzip = (''--no-unzip'' \<in> set flags);
          ignore_default = (''--ignore-default'' \<in> set flags);
          full_url = BASE_URL @ ''/'' @ repo_path
      in seq (makedirs TMP_DIR (print (''Fetching repo: '' @ repo_path) s0)) (\<lambda>_ s1.
           case fetch_loop E full_url files_to_try [] s1 of (downloaded, s2) \<Rightarrow>
             if downloaded = [] then (Inl (SysExit 1), print ''No files found in repo.'' s2)
             else
               seq (if \<not> no_unzip then extract_loop E archives s2 else (Inr (), s2)) (\<lambda>_ s3.
                 case split_on (CHR ''/'') repo_path of
                   [user, reponame] \<Rightarrow>
                     seq (if ignore_default \<and> ''install.sh'' \<in> set downloaded
                          then run_install_script_v1 E s3
                          else auto_install_v1 E reponame s3)
                       (\<lambda>_ s4. (Inr (), print ''Done.'' s4))
                 | _ \<Rightarrow> (Inl ValueError, s3))))"

definition help_text_v1 :: string where
  "help_text_v1 = join_with [CHR 0x0A]
     [[],
      ''fileshare - lightweight universal repo fetcher & builder'',
      [],
      ''Usage:'',
      ''  fileshare get <user/repo> [--no-unzip] [--ignore-default]'',
      ''      Downloads and installs a repo from quanthai.net.'',
      ''      --no-unzip: Skips extracting downloaded zip files.'',
      ''      --ignore-default: Runs install.sh if available instead of auto-detect.'',
      [],
      ''  fileshare remove <user/repo>'',
      ''      Removes installed binary and associated share directory.'',
      [],
      ''  fileshare clean'',
      ''      Wipes the temporary build directory at /tmp/fsdl.'',
      [],
      ''  fileshare --help'',
      ''      Shows this help message.'',
      []]"

definition print_help_v1 :: "world \<Rightarrow> world" where
  "print_help_v1 s = print help_text_v1 s"

definition main_v1 :: "env \<Rightarrow> string list \<Rightarrow> world \<Rightarrow> unit result \<times> world" where
  "main_v1 E argv s =
     (if euid E \<noteq> 0 then (Inl (SysExit 1), print ''Please run with sudo.'' s)
      else if length argv < 2 \<or> ''--help'' \<in> set argv then (Inl (SysExit 0), print_help_v1 s)
      else
        (let command = argv ! 1
         in if command \<notin> set [''get'', ''remove'', ''clean'']
            then (Inl (SysExit 1), print_help_v1 (print (''Unknown command: '' @ command) s))
            else if command = ''clean'' then clean_tempfolder E s
            else if length argv < 3
            then (Inl (SysExit 1), print_help_v1 (print ''Error: Missing repo path.'' s))
            else
              (let repo_path = strip_slash (argv ! 2);
                   flags = drop 3 argv
               in if command = ''get'' then get_repo_v1 E repo_path flags s
                  else if command = ''remove'' then remove_repo E repo_path s
                  else (Inr (), s))))"

section \<open>Reading a trace\<close>

text \<open>
  What a run did is read off its trace: the shell commands (which are the only way the
  script builds, installs or removes anything) with their statuses, the spawned
  programs, the HTTP requests and the archives extracted.
\<close>

fun shell_of :: "event \<Rightarrow> (string \<times> int) list" where
  "shell_of (Shell c rc) = [(c, rc)]"
| "shell_of _ = []"

fun spawn_of :: "event \<Rightarrow> (string list \<times> proc_result) list" where
  "spawn_of (Spawn a r) = [(a, r)]"
| "spawn_of _ = []"

fun http_of :: "event \<Rightarrow> string list" where
  "http_of (HttpGet u) = [u]"
| "http_of _ = []"

fun extract_of :: "event \<Rightarrow> string list" where
  "extract_of (Extract p) = [p]"
| "extract_of _ = []"

definition shells :: "world \<Rightarrow> (string \<times> int) list" where
  "shells s = concat (map shell_of (trace s))"

definition spawns :: "world \<Rightarrow> (string list \<times> proc_result) list" where
  "spawns s = concat (map spawn_of (trace s))"

definition http_gets :: "world \<Rightarrow> string list" where
  "http_gets s = concat (map http_of (trace s))"

definition extracts :: "world \<Rightarrow> string list" where
  "extracts s = concat (map extract_of (trace s))"


text \<open>
  What \<open>rm -rf p\<close> is expected to do: \<open>p\<close> and everything below it is gone, and the
  command succeeds whether or not anything was there.
\<close>

definition rm_rf :: "string \<Rightarrow> fs \<Rightarrow> fs" where
  "rm_rf p f = (\<lambda>q. if path_under p q then None else f q)"


section \<open>The Detector as the specification describes it\<close>

text \<open>
  The specification speaks of a Detector that returns one build strategy, the first in a
  fixed priority order whose marker file is in the Workspace, and of a Builder that runs
  the toolchain of that strategy. The script has both in one function. For the
  comparison, the specification's reading is written down here: \<open>first_match\<close> follows
  the specification's words, \<open>toolchain\<close> and \<open>toolchain_v1\<close> list the commands each
  variant's branch issues.
\<close>

datatype strategy = PythonEntry | GoEntry | NativeEntry | MakefileRule | Unknown

fun marker :: "strategy \<Rightarrow> string" where
  "marker PythonEntry = ''main.py''"
| "marker GoEntry = ''main.go''"
| "marker NativeEntry = ''main.cpp''"
| "marker MakefileRule = ''Makefile''"
| "marker Unknown = []"

definition priority :: "strategy list" where
  "priority = [PythonEntry, GoEntry, NativeEntry, MakefileRule]"

definition first_match :: "(string \<Rightarrow> bool) \<Rightarrow> strategy" where
  "first_match present =
     (case find (\<lambda>st. present (marker st)) priority of Some st \<Rightarrow> st | None \<Rightarrow> Unknown)"

definition in_workspace :: "world \<Rightarrow> string \<Rightarrow> bool" where
  "in_workspace s m = (files s (TMP_DIR @ ''/'' @ m) \<noteq> None)"

fun toolchain :: "env \<Rightarrow> string \<Rightarrow> strategy \<Rightarrow> string list" where
  "toolchain E reponame PythonEntry =
     [''pip install pyinstaller'',
      ''sudo pyinstaller --onefile main.py --name '' @ reponame @ '' '' @ py_flags E]"
| "toolchain E reponame GoEntry = [''go build -o '' @ reponame @ '' main.go'']"
| "toolchain E reponame NativeEntry = [''g++ main.cpp -o '' @ reponame]"
| "toolchain E reponame MakefileRule = [''make'']"
| "toolchain E reponame Unknown = []"

fun toolchain_v1 :: "strategy \<Rightarrow> string list" where
  "toolchain_v1 PythonEntry = [''pip install pyinstaller'', ''pyinstaller --onefile main.py'']"
| "toolchain_v1 GoEntry = [''go build -o app_bin main.go'']"
| "toolchain_v1 NativeEntry = [''g++ main.cpp -o app_bin'']"
| "toolchain_v1 MakefileRule = [''make'']"
| "toolchain_v1 Unknown = []"

text \<open>The commands a run added to the trace, and whether one of them failed.\<close>

definition new_cmds :: "world \<Rightarrow> world \<Rightarrow> string list" where
  "new_cmds s s' = map fst (drop (length (shells s)) (shells s'))"

definition failed_cmd :: "world \<Rightarrow> bool" where
  "failed_cmd s = (\<exists>x \<in> set (shells s). snd x \<noteq> 0)"

section \<open>Concrete runs\<close>

text \<open>
  A machine with the system directories and no Workspace yet, a shell that knows
  \<open>rm -rf\<close> and lets every other command succeed without effect, and a server that has
  nothing.
\<close>

definition fs0 :: fs where
  "fs0 = [''/tmp'' \<mapsto> Dir, ''/usr'' \<mapsto> Dir, ''/usr/local'' \<mapsto> Dir, ''/usr/local/bin'' \<mapsto> Dir,
           ''/usr/share'' \<mapsto> Dir, ''/root'' \<mapsto> Dir]"

definition world0 :: world where
  "world0 = \<lparr>files = fs0, cwd = ''/root'', trace = []\<rparr>"

definition sh_rm :: "string \<Rightarrow> string \<Rightarrow> fs \<Rightarrow> int \<times> fs" where
  "sh_rm cmd d f =
     (if prefix ''sudo rm -rf '' cmd then (0, rm_rf (drop 12 cmd) f) else (0, f))"

definition env0 :: env where
  "env0 = \<lparr>euid = 0, http = (\<lambda>u. Response 404 []), shell = sh_rm,
            spawn = (\<lambda>a d f. (Returncode 0, f)), unzip = (\<lambda>c. None),
            find_spec = (\<lambda>m. Some False)\<rparr>"

text \<open>The tool of \<open>alice/tool\<close> as an earlier install left it.\<close>

definition world_installed :: world where
  "world_installed =
     world0\<lparr>files := fs0(''/usr/local/bin/tool'' \<mapsto> File ''ELF'',
                          ''/usr/share/tool'' \<mapsto> Dir,
                          ''/usr/share/tool/tool'' \<mapsto> File ''ELF'')\<rparr>"

text \<open>
  A Workspace that holds a Go entry point beside a Makefile, and one that holds no
  marker; a machine where \<open>pkg_resources\<close> is not installed.
\<close>

definition world_go :: world where
  "world_go =
     world0\<lparr>files := fs0(''/tmp/fsdl'' \<mapsto> Dir,
                          ''/tmp/fsdl/main.go'' \<mapsto> File ''package main'',
                          ''/tmp/fsdl/Makefile'' \<mapsto> File ''all:'')\<rparr>"

definition world_bare :: world where
  "world_bare =
     world0\<lparr>files := fs0(''/tmp/fsdl'' \<mapsto> Dir, ''/tmp/fsdl/README'' \<mapsto> File ''hello'')\<rparr>"

definition env_no_pkg :: env where
  "env_no_pkg =
     env0\<lparr>find_spec := (\<lambda>m. if m = ''pkg_resources.py2_warn'' then None else Some False)\<rparr>"



section \<open>Properties\<close>

subsection \<open>Auxiliary facts\<close>

lemma seq_Inl [simp]: "seq (Inl e, s) f = (Inl e, s)"
  by (simp add: seq_def)

lemma seq_Inr [simp]: "seq (Inr v, s) f = f v s"
  by (simp add: seq_def)

lemma length_split_on: "length (split_on c t) = Suc (count_list t c)"
  by (induction t) (auto split: list.splits)

lemma split_on_no_sep: "c \<notin> set t \<Longrightarrow> split_on c t = [t]"
  by (induction t) auto

lemma split_on_one:
  "c \<notin> set a \<Longrightarrow> c \<notin> set b \<Longrightarrow> split_on c (a @ c # b) = [a, b]"
  by (induction a) (auto simp: split_on_no_sep)


lemma shells_emit [simp]: "shells (emit e s) = shells s @ shell_of e"
  and spawns_emit [simp]: "spawns (emit e s) = spawns s @ spawn_of e"
  and http_gets_emit [simp]: "http_gets (emit e s) = http_gets s @ http_of e"
  and extracts_emit [simp]: "extracts (emit e s) = extracts s @ extract_of e"
  by (simp_all add: shells_def spawns_def http_gets_def extracts_def emit_def)

lemma emit_fields [simp]: "files (emit e s) = files s" "cwd (emit e s) = cwd s"
  by (simp_all add: emit_def)

lemma print_fields [simp]:
  "files (print m s) = files s" "cwd (print m s) = cwd s"
  "shells (print m s) = shells s" "spawns (print m s) = spawns s"
  "http_gets (print m s) = http_gets s" "extracts (print m s) = extracts s"
  by (simp_all add: print_def)

lemma proj_files_update [simp]:
  "shells (s\<lparr>files := f\<rparr>) = shells s" "spawns (s\<lparr>files := f\<rparr>) = spawns s"
  "http_gets (s\<lparr>files := f\<rparr>) = http_gets s" "extracts (s\<lparr>files := f\<rparr>) = extracts s"
  by (simp_all add: shells_def spawns_def http_gets_def extracts_def)

lemma proj_cwd_update [simp]:
  "shells (s\<lparr>cwd := d\<rparr>) = shells s" "spawns (s\<lparr>cwd := d\<rparr>) = spawns s"
  "http_gets (s\<lparr>cwd := d\<rparr>) = http_gets s" "extracts (s\<lparr>cwd := d\<rparr>) = extracts s"
  by (simp_all add: shells_def spawns_def http_gets_def extracts_def)

lemma stat_TMP:
  "stat s TMP_DIR = (if files s ''/tmp'' = Some Dir then files s ''/tmp/fsdl'' else None)"
  by (simp add: stat_def resolve_def TMP_DIR_def os_path_join_def node_at_def path_of_def
      split: option.split node.split)


subsection \<open>Removal\<close>


lemma rm_rf_self [simp]: "rm_rf p f p = None"
  by (simp add: rm_rf_def path_under_def)

lemma rm_rf_None [simp]: "f q = None \<Longrightarrow> rm_rf p f q = None"
  by (simp add: rm_rf_def)




lemma stat_trace [simp]: "stat (s\<lparr>trace := t\<rparr>) p = stat s p"
  by (simp add: stat_def resolve_def split: sum.split)

lemma exists_trace [simp]: "exists (s\<lparr>trace := t\<rparr>) p = exists s p"
  by (simp add: exists_def)

lemma exists_print [simp]: "exists (print m s) p = exists s p"
  by (simp add: print_def emit_def)














text \<open>
  Claim C9. \<open>remove_repo\<close> takes a bare name or an owner/name pair. Without a separator
  the whole input is the package name; with exactly one, the piece after it is; with
  two or more the unpacking raises ValueError before any path is looked at, and the
  world is as it was.
\<close>

theorem remove_repo_name:
  "(CHR ''/'' \<notin> set x \<longrightarrow> remove_repo E x s = remove_paths E x s)
   \<and> (CHR ''/'' \<notin> set u \<and> CHR ''/'' \<notin> set n \<longrightarrow>
        remove_repo E (u @ ''/'' @ n) s = remove_paths E n s)
   \<and> (2 \<le> count_list y (CHR ''/'') \<longrightarrow> remove_repo E y s = (Inl ValueError, s))"
proof (intro conjI impI)
  assume "CHR ''/'' \<notin> set x"
  then show "remove_repo E x s = remove_paths E x s"
    by (simp add: remove_repo_def)
next
  assume "CHR ''/'' \<notin> set u \<and> CHR ''/'' \<notin> set n"
  then have "split_on (CHR ''/'') (u @ ''/'' @ n) = [u, n]"
    using split_on_one [of "CHR ''/''" u n] by simp
  then show "remove_repo E (u @ ''/'' @ n) s = remove_paths E n s"
    by (simp add: remove_repo_def)
next
  assume two: "2 \<le> count_list y (CHR ''/'')"
  then have "3 \<le> length (split_on (CHR ''/'') y)"
    by (simp add: length_split_on)
  then obtain a b c r where "split_on (CHR ''/'') y = a # b # c # r"
    by (metis Suc_le_length_iff numeral_3_eq_3)
  moreover have "CHR ''/'' \<in> set y"
    using two by (metis count_list_0_iff not_numeral_le_zero)
  ultimately show "remove_repo E y s = (Inl ValueError, s)"
    by (simp add: remove_repo_def)
qed

theorem remove_repo_name_witness:
  "remove_repo env0 ''tool'' world_installed = remove_paths env0 ''tool'' world_installed
   \<and> remove_repo env0 ''alice/tool'' world_installed = remove_paths env0 ''tool'' world_installed
   \<and> remove_repo env0 ''a/b/c'' world_installed = (Inl ValueError, world_installed)"
  using remove_repo_name [of "''tool''" env0 world_installed "''alice''" "''tool''" "''a/b/c''"]
  by simp

subsection \<open>The privilege check\<close>

text \<open>
  Claim C10. Whatever the arguments (get, remove, clean, --help or none), \<open>main\<close> of
  either variant first asks for effective user id 0. When it is not, the process prints
  one line and leaves with status 1: nothing was requested over HTTP, nothing was run,
  the file system is untouched.
\<close>

theorem main_requires_root:
  "euid E \<noteq> 0 \<Longrightarrow>
     main E argv s = (Inl (SysExit 1), s\<lparr>trace := trace s @ [Print ''Please run with sudo.'']\<rparr>)
     \<and> main_v1 E argv s = (Inl (SysExit 1), s\<lparr>trace := trace s @ [Print ''Please run with sudo.'']\<rparr>)
     \<and> exit_status (fst (main E argv s)) = 1
     \<and> files (snd (main E argv s)) = files s"
  by (simp add: main_def main_v1_def print_def emit_def)

theorem main_requires_root_witness:
  "euid (env0\<lparr>euid := 1000\<rparr>) \<noteq> 0
   \<and> main (env0\<lparr>euid := 1000\<rparr>) [''fileshare'', ''--help''] world0 =
       (Inl (SysExit 1), world0\<lparr>trace := trace world0 @ [Print ''Please run with sudo.'']\<rparr>)
   \<and> exit_status (fst (main (env0\<lparr>euid := 1000\<rparr>) [''fileshare'', ''--help''] world0)) = 1"
  using main_requires_root [of "env0\<lparr>euid := 1000\<rparr>" "[''fileshare'', ''--help'']" world0]
  by simp

subsection \<open>Detection\<close>

lemma new_cmds_append [simp]: "shells s' = shells s @ xs \<Longrightarrow> new_cmds s s' = map fst xs"
  by (simp add: new_cmds_def)

lemma new_cmds_same [simp]: "shells s' = shells s \<Longrightarrow> new_cmds s s' = []"
  by (simp add: new_cmds_def)

lemma chdir_TMP:
  "chdir TMP_DIR s =
     (if stat s TMP_DIR = Some Dir then (Inr (), s\<lparr>cwd := TMP_DIR\<rparr>) else (Inl OSError, s))"
  by (simp add: chdir_def stat_def resolve_def TMP_DIR_def os_path_join_def node_at_def path_of_def
      split: option.split node.split)

lemma exists_marker:
  assumes "stat s TMP_DIR = Some Dir"
  shows "exists (s\<lparr>cwd := TMP_DIR\<rparr>) ''main.py'' = in_workspace s ''main.py''"
    and "exists (s\<lparr>cwd := TMP_DIR\<rparr>) ''main.go'' = in_workspace s ''main.go''"
    and "exists (s\<lparr>cwd := TMP_DIR\<rparr>) ''main.cpp'' = in_workspace s ''main.cpp''"
    and "exists (s\<lparr>cwd := TMP_DIR\<rparr>) ''Makefile'' = in_workspace s ''Makefile''"
  using assms
  by (simp_all add: exists_def in_workspace_def stat_def resolve_def TMP_DIR_def os_path_join_def
      node_at_def path_of_def split: option.splits node.splits if_splits)

lemma run_seq:
  "seq (run E c s) k =
     (case shell E c (cwd s) (files s) of (rc, f) \<Rightarrow>
        if rc \<noteq> 0
        then (Inl (SysExit 1), print (''Command failed: '' @ c) (emit (Shell c rc) (s\<lparr>files := f\<rparr>)))
        else k () (emit (Shell c 0) (s\<lparr>files := f\<rparr>)))"
  by (simp add: run_def Let_def split: prod.split)

lemma first_match_cases:
  "first_match P =
     (if P ''main.py'' then PythonEntry else if P ''main.go'' then GoEntry
      else if P ''main.cpp'' then NativeEntry else if P ''Makefile'' then MakefileRule
      else Unknown)"
  by (simp add: first_match_def priority_def)

lemma single_append: "[a] @ xs = a # xs"
  by simp

lemma detect_v2:
  "prefix (new_cmds s (snd (detect_and_build E reponame s)))
     (toolchain E reponame (first_match (in_workspace s)))
   \<and> (stat s TMP_DIR = Some Dir \<and> \<not> probes_raise E \<longrightarrow>
        take 1 (new_cmds s (snd (detect_and_build E reponame s))) =
        take 1 (toolchain E reponame (first_match (in_workspace s))))
   \<and> (\<forall>v. fst (detect_and_build E reponame s) = Inr v \<longrightarrow>
        new_cmds s (snd (detect_and_build E reponame s)) =
        toolchain E reponame (first_match (in_workspace s)))
   \<and> (stat s TMP_DIR = Some Dir \<and> first_match (in_workspace s) = Unknown \<longrightarrow>
        fst (detect_and_build E reponame s) =
          (if probes_raise E then Inl ModuleNotFoundError else Inr None)
        \<and> files (snd (detect_and_build E reponame s)) = files s)"
proof (cases "stat s TMP_DIR = Some Dir")
  case False
  then show ?thesis by (simp add: detect_and_build_def chdir_TMP)
next
  case True
  note ex = exists_marker [OF True]
  show ?thesis
  proof (cases "probes_raise E")
    case True
    with \<open>stat s TMP_DIR = Some Dir\<close> show ?thesis by (simp add: detect_and_build_def chdir_TMP)
  next
    case False
    note base = detect_and_build_def chdir_TMP True False ex first_match_cases run_seq
    consider (py) "in_workspace s ''main.py''"
      | (go) "\<not> in_workspace s ''main.py''" "in_workspace s ''main.go''"
      | (cpp) "\<not> in_workspace s ''main.py''" "\<not> in_workspace s ''main.go''" "in_workspace s ''main.cpp''"
      | (mk) "\<not> in_workspace s ''main.py''" "\<not> in_workspace s ''main.go''" "\<not> in_workspace s ''main.cpp''"
          "in_workspace s ''Makefile''"
      | (none) "\<not> in_workspace s ''main.py''" "\<not> in_workspace s ''main.go''" "\<not> in_workspace s ''main.cpp''"
          "\<not> in_workspace s ''Makefile''"
      by blast
    then show ?thesis
    proof cases
      case py
      then show ?thesis by (simp add: base Let_def single_append split: prod.split del: append.simps)
    next
      case go
      then show ?thesis by (simp add: base split: prod.split del: append.simps)
    next
      case cpp
      then show ?thesis by (simp add: base split: prod.split del: append.simps)
    next
      case mk
      then show ?thesis by (simp add: base split: prod.split del: append.simps)
    next
      case none
      then show ?thesis by (simp add: base del: append.simps)
    qed
  qed
qed

lemma detect_v1:
  "prefix (new_cmds s (snd (detect_and_build_v1 E s)))
     (toolchain_v1 (first_match (in_workspace s)))
   \<and> (stat s TMP_DIR = Some Dir \<longrightarrow>
        take 1 (new_cmds s (snd (detect_and_build_v1 E s))) =
        take 1 (toolchain_v1 (first_match (in_workspace s))))
   \<and> (\<forall>v. fst (detect_and_build_v1 E s) = Inr v \<longrightarrow>
        new_cmds s (snd (detect_and_build_v1 E s)) =
        toolchain_v1 (first_match (in_workspace s)))
   \<and> (stat s TMP_DIR = Some Dir \<and> first_match (in_workspace s) = Unknown \<longrightarrow>
        fst (detect_and_build_v1 E s) = Inr None
        \<and> files (snd (detect_and_build_v1 E s)) = files s)"
proof (cases "stat s TMP_DIR = Some Dir")
  case False
  then show ?thesis by (simp add: detect_and_build_v1_def chdir_TMP)
next
  case True
  note ex = exists_marker [OF True]
  note base = detect_and_build_v1_def chdir_TMP True ex first_match_cases run_seq
  show ?thesis
  proof -
    consider (py) "in_workspace s ''main.py''"
      | (go) "\<not> in_workspace s ''main.py''" "in_workspace s ''main.go''"
      | (cpp) "\<not> in_workspace s ''main.py''" "\<not> in_workspace s ''main.go''" "in_workspace s ''main.cpp''"
      | (mk) "\<not> in_workspace s ''main.py''" "\<not> in_workspace s ''main.go''" "\<not> in_workspace s ''main.cpp''"
          "in_workspace s ''Makefile''"
      | (none) "\<not> in_workspace s ''main.py''" "\<not> in_workspace s ''main.go''" "\<not> in_workspace s ''main.cpp''"
          "\<not> in_workspace s ''Makefile''"
      by blast
    then show ?thesis
    proof cases
      case py
      then show ?thesis by (simp add: base Let_def single_append split: prod.split del: append.simps)
    next
      case go
      then show ?thesis by (simp add: base split: prod.split del: append.simps)
    next
      case cpp
      then show ?thesis by (simp add: base split: prod.split del: append.simps)
    next
      case mk
      then show ?thesis by (simp add: base split: prod.split del: append.simps)
    next
      case none
      then show ?thesis by (simp add: base del: append.simps)
    qed
  qed
qed

lemmas sys_eval = chdir_def chmod_def stat_def resolve_def exists_def os_path_join_def node_at_def
  path_of_def TMP_DIR_def makedirs_def write_file_def parts_def

lemmas trace_eval = new_cmds_def shells_def spawns_def http_gets_def extracts_def emit_def print_def

text \<open>
  Claim C3. \<open>detect_and_build\<close> of either variant looks for the markers in the order
  main.py, main.go, main.cpp, Makefile, and the commands it runs are those of the first
  marker present, in order: never a command of another strategy (the commands run are a
  prefix of that toolchain, cut short only by a command that fails), the first command
  of that toolchain is run whenever the Workspace exists, and all of them when the
  function returns. With no marker in the Workspace no command is run, the file system
  is untouched and the result is None. The variant \<^verbatim>\<open>src/fileshare.py\<close> asks
  \<open>find_spec\<close> for seven modules before it looks at any marker: where one of these
  probes raises, the function raises ModuleNotFoundError whatever the Workspace holds, and
  that is the one case in which the priority order is not followed.
\<close>

theorem detect_first_match:
  "(prefix (new_cmds s (snd (detect_and_build E reponame s)))
      (toolchain E reponame (first_match (in_workspace s)))
    \<and> (stat s TMP_DIR = Some Dir \<and> \<not> probes_raise E \<longrightarrow>
         take 1 (new_cmds s (snd (detect_and_build E reponame s))) =
         take 1 (toolchain E reponame (first_match (in_workspace s))))
    \<and> (\<forall>v. fst (detect_and_build E reponame s) = Inr v \<longrightarrow>
         new_cmds s (snd (detect_and_build E reponame s)) =
         toolchain E reponame (first_match (in_workspace s)))
    \<and> (stat s TMP_DIR = Some Dir \<and> first_match (in_workspace s) = Unknown \<longrightarrow>
         fst (detect_and_build E reponame s) =
           (if probes_raise E then Inl ModuleNotFoundError else Inr None)
         \<and> files (snd (detect_and_build E reponame s)) = files s))
   \<and> (prefix (new_cmds s (snd (detect_and_build_v1 E s)))
      (toolchain_v1 (first_match (in_workspace s)))
    \<and> (stat s TMP_DIR = Some Dir \<longrightarrow>
         take 1 (new_cmds s (snd (detect_and_build_v1 E s))) =
         take 1 (toolchain_v1 (first_match (in_workspace s))))
    \<and> (\<forall>v. fst (detect_and_build_v1 E s) = Inr v \<longrightarrow>
         new_cmds s (snd (detect_and_build_v1 E s)) =
         toolchain_v1 (first_match (in_workspace s)))
    \<and> (stat s TMP_DIR = Some Dir \<and> first_match (in_workspace s) = Unknown \<longrightarrow>
         fst (detect_and_build_v1 E s) = Inr None
         \<and> files (snd (detect_and_build_v1 E s)) = files s))"
  using detect_v2 [of s E reponame] detect_v1 [of s E] by blast

theorem detect_first_match_witness:
  "first_match (in_workspace world_go) = GoEntry
   \<and> take 1 (new_cmds world_go (snd (detect_and_build env0 ''tool'' world_go))) =
       [''go build -o tool main.go'']
   \<and> take 1 (new_cmds world_go (snd (detect_and_build_v1 env0 world_go))) =
       [''go build -o app_bin main.go'']
   \<and> first_match (in_workspace world_bare) = Unknown
   \<and> fst (detect_and_build env0 ''tool'' world_bare) = Inr None
   \<and> fst (detect_and_build_v1 env0 world_bare) = Inr None
   \<and> files (snd (detect_and_build env0 ''tool'' world_bare)) = files world_bare"
  using detect_first_match [of world_go env0 "''tool''"]
    detect_first_match [of world_bare env0 "''tool''"]
  by (simp add: sys_eval first_match_cases in_workspace_def probes_raise_def
      known_hidden_imports_def world_go_def world_bare_def world0_def fs0_def env0_def)

text \<open>
  Where \<open>pkg_resources\<close> is not installed, \<^verbatim>\<open>src/fileshare.py\<close> does not reach the Go entry
  point that is in the Workspace: it raises before any marker is looked at and runs
  nothing, while the older variant builds.
\<close>

theorem detect_probe_raises:
  "first_match (in_workspace world_go) = GoEntry
   \<and> detect_and_build env_no_pkg ''tool'' world_go =
       (Inl ModuleNotFoundError, world_go\<lparr>cwd := TMP_DIR\<rparr>)
   \<and> new_cmds world_go (snd (detect_and_build env_no_pkg ''tool'' world_go)) = []
   \<and> new_cmds world_go (snd (detect_and_build_v1 env_no_pkg world_go)) =
       [''go build -o app_bin main.go'']"
  by (simp add: detect_and_build_def detect_and_build_v1_def sys_eval first_match_cases
      world_go_def world0_def fs0_def env_no_pkg_def env0_def probes_raise_def
      known_hidden_imports_def in_workspace_def run_seq sh_rm_def trace_eval)

subsection \<open>Fetching\<close>

lemma write_file_proj:
  assumes "write_file p c s = Inr s'"
  shows "shells s' = shells s" "spawns s' = spawns s" "http_gets s' = http_gets s"
    "extracts s' = extracts s" "cwd s' = cwd s" "trace s' = trace s"
  using assms
  by (auto simp: write_file_def Let_def split: if_splits sum.splits option.splits node.splits)





lemma fetch_loop_http:
  "http_gets (snd (fetch_loop E url fs d s)) = http_gets s @ map (\<lambda>f. url @ ''/'' @ f) fs"
proof (induction fs arbitrary: d s)
  case Nil
  show ?case by simp
next
  case (Cons f fs)
  show ?case
    by (simp add: Let_def Cons write_file_proj split: http_result.split sum.split del: append.simps)
qed

lemma makedirs_trace [simp]:
  "trace (snd (makedirs p s)) = trace s" "cwd (snd (makedirs p s)) = cwd s"
  by (simp_all add: makedirs_def split: prod.split option.split)

lemma makedirs_TMP:
  assumes "makedirs TMP_DIR s = (Inr (), s1)"
  shows "stat s1 TMP_DIR = Some Dir"
    and "files s1 q = files s q \<or> (q \<in> {''/tmp'', TMP_DIR} \<and> files s1 q = Some Dir)"
  using assms
  by (auto simp: makedirs_def parts_def TMP_DIR_def stat_def resolve_def os_path_join_def
      node_at_def path_of_def split: option.splits node.splits if_splits)




lemma makedirs_proj [simp]:
  "shells (snd (makedirs p s)) = shells s" "spawns (snd (makedirs p s)) = spawns s"
  "http_gets (snd (makedirs p s)) = http_gets s" "extracts (snd (makedirs p s)) = extracts s"
  by (simp_all add: makedirs_def split: prod.split option.split)




lemma run_proj [simp]:
  "extracts (snd (run E c s)) = extracts s" "spawns (snd (run E c s)) = spawns s"
  "http_gets (snd (run E c s)) = http_gets s"
  by (simp_all add: run_def Let_def split: prod.split)

lemma chdir_proj [simp]:
  "extracts (snd (chdir p s)) = extracts s" "spawns (snd (chdir p s)) = spawns s"
  "http_gets (snd (chdir p s)) = http_gets s" "shells (snd (chdir p s)) = shells s"
  "files (snd (chdir p s)) = files s" "trace (snd (chdir p s)) = trace s"
  by (simp_all add: chdir_def split: sum.split)

lemma chmod_proj [simp]:
  "extracts (snd (chmod p s)) = extracts s" "spawns (snd (chmod p s)) = spawns s"
  "http_gets (snd (chmod p s)) = http_gets s" "shells (snd (chmod p s)) = shells s"
  "files (snd (chmod p s)) = files s" "cwd (snd (chmod p s)) = cwd s"
  by (simp_all add: chmod_def split: sum.split)

lemma extracts_seq:
  assumes "extracts (snd r) = x" and "\<And>v s. extracts (snd (k v s)) = extracts s"
  shows "extracts (snd (seq r k)) = x"
  using assms by (cases r) (auto simp: seq_def split: sum.split)

lemma extracts_detect_v1 [simp]: "extracts (snd (detect_and_build_v1 E s)) = extracts s"
  unfolding detect_and_build_v1_def
  by (rule extracts_seq, simp) (auto intro!: extracts_seq)

lemma extracts_install_v1 [simp]: "extracts (snd (install_binary_v1 E bp n s)) = extracts s"
  unfolding install_binary_v1_def Let_def
  by (auto intro!: extracts_seq)

lemma extracts_script_v1 [simp]: "extracts (snd (run_install_script_v1 E s)) = extracts s"
  unfolding run_install_script_v1_def Let_def
  by (rule extracts_seq, simp) (auto split: prod.split proc_result.split)

lemma extracts_auto_v1 [simp]: "extracts (snd (auto_install_v1 E n s)) = extracts s"
  unfolding auto_install_v1_def
  by (rule extracts_seq, simp) (auto split: option.split)







end
